theory Spec2Isabelle
  imports Complex_Main
begin

section \<open>Data model of the advertisement broadcaster\<close>

text \<open>
  The broadcaster lives in \<^verbatim>\<open>internal/advertisement-operator/broadcaster.go\<close>.
  Strings are Go strings (byte sequences), modelled as \<^typ>\<open>string\<close>.

  \<^verbatim>\<open>resource.Quantity\<close> belongs to the Kubernetes API machinery, not to this
  repository. It is an exact decimal number; its \<^verbatim>\<open>Add\<close> never rounds (it leaves the
  64-bit fast path for arbitrary precision when that would overflow). It is modelled as
  a rational number with \<^verbatim>\<open>Add\<close> as addition; the presentation format a quantity
  carries is not modelled.
\<close>

type_synonym Quantity = rat

definition Add :: "Quantity \<Rightarrow> Quantity \<Rightarrow> Quantity" where
  "Add q y = q + y"

text \<open>\<^verbatim>\<open>corev1.ResourceName\<close> is a string; \<^verbatim>\<open>corev1.ResourceList\<close> is a Go map.\<close>

type_synonym ResourceName = string
type_synonym ResourceList = "ResourceName \<rightharpoonup> Quantity"

definition ResourceCPU :: ResourceName where
  "ResourceCPU = ''cpu''"

definition ResourceMemory :: ResourceName where
  "ResourceMemory = ''memory''"

definition ResourcePods :: ResourceName where
  "ResourcePods = ''pods''"

text \<open>
  The accessors \<^verbatim>\<open>Cpu()\<close>, \<^verbatim>\<open>Memory()\<close> and \<^verbatim>\<open>Pods()\<close> of a resource list return the
  entry of that name, and a zero quantity when the list has none.
\<close>

definition Cpu :: "ResourceList \<Rightarrow> Quantity" where
  "Cpu rl = (case rl ResourceCPU of Some q \<Rightarrow> q | None \<Rightarrow> 0)"

definition Memory :: "ResourceList \<Rightarrow> Quantity" where
  "Memory rl = (case rl ResourceMemory of Some q \<Rightarrow> q | None \<Rightarrow> 0)"

definition Pods :: "ResourceList \<Rightarrow> Quantity" where
  "Pods rl = (case rl ResourcePods of Some q \<Rightarrow> q | None \<Rightarrow> 0)"

record ContainerImage =
  Names :: "string list"
  SizeBytes :: int

text \<open>The fields of \<^verbatim>\<open>corev1.Node\<close> that the broadcaster reads.\<close>

record Node =
  Spec_PodCIDR :: string
  Status_Allocatable :: ResourceList
  Status_Images :: "ContainerImage list"

section \<open>Resource aggregation\<close>

text \<open>
  The inner loop of \<^verbatim>\<open>GetClusterResources\<close>:
  \<^verbatim>\<open>for _, image := range node.Status.Images { images = append(images, image) }\<close>
\<close>

fun append_images :: "ContainerImage list \<Rightarrow> ContainerImage list \<Rightarrow> ContainerImage list" where
  "append_images images [] = images"
| "append_images images (img # rest) = append_images (images @ [img]) rest"

text \<open>
  The outer loop \<^verbatim>\<open>for _, node := range nodes\<close>, on the four accumulators
  \<^verbatim>\<open>cpu\<close>, \<^verbatim>\<open>ram\<close>, \<^verbatim>\<open>pods\<close> and \<^verbatim>\<open>images\<close>.
\<close>

fun GetClusterResources_loop ::
  "Node list \<Rightarrow> Quantity \<times> Quantity \<times> Quantity \<times> ContainerImage list
    \<Rightarrow> Quantity \<times> Quantity \<times> Quantity \<times> ContainerImage list" where
  "GetClusterResources_loop [] acc = acc"
| "GetClusterResources_loop (node # rest) (cpu, ram, pods, images) =
     GetClusterResources_loop rest
       (Add cpu (Cpu (Status_Allocatable node)),
        Add ram (Memory (Status_Allocatable node)),
        Add pods (Pods (Status_Allocatable node)),
        append_images images (Status_Images node))"

definition GetClusterResources :: "Node list \<Rightarrow> ResourceList \<times> ContainerImage list" where
  "GetClusterResources nodes =
     (case GetClusterResources_loop nodes (0, 0, 0, []) of
        (cpu, ram, pods, images) \<Rightarrow>
          (((Map.empty(ResourceCPU \<mapsto> cpu))(ResourceMemory \<mapsto> ram))(ResourcePods \<mapsto> pods),
           images))"

section \<open>Pricing\<close>

text \<open>
  The inner loop of \<^verbatim>\<open>ComputePrices\<close>:
  \<^verbatim>\<open>for _, name := range image.Names { prices[ResourceName(name)] = 5 }\<close>
\<close>

fun ComputePrices_names :: "ResourceList \<Rightarrow> string list \<Rightarrow> ResourceList" where
  "ComputePrices_names prices [] = prices"
| "ComputePrices_names prices (name # rest) = ComputePrices_names (prices(name \<mapsto> 5)) rest"

fun ComputePrices_loop :: "ResourceList \<Rightarrow> ContainerImage list \<Rightarrow> ResourceList" where
  "ComputePrices_loop prices [] = prices"
| "ComputePrices_loop prices (img # rest) =
     ComputePrices_loop (ComputePrices_names prices (Names img)) rest"

text \<open>\<^verbatim>\<open>resource.MustParse("2Gi")\<close> is \<open>2 * 1024\<^sup>3\<close>.\<close>

definition ComputePrices :: "ContainerImage list \<Rightarrow> ResourceList" where
  "ComputePrices images =
     ComputePrices_loop ((Map.empty(ResourceCPU \<mapsto> 1))(ResourceMemory \<mapsto> 2 * 1024 ^ 3)) images"

section \<open>Runtime panics, time\<close>

text \<open>
  The two Go runtime errors the broadcaster can raise: an index beyond the length of a
  slice, and a slice expression whose low bound is beyond the length of the string.
  Each carries the offending index and the length.
\<close>

datatype panic = IndexOutOfRange nat nat | SliceBoundsOutOfRange nat nat

text \<open>
  A \<^verbatim>\<open>time.Time\<close> is an instant and a \<^verbatim>\<open>time.Duration\<close> a number of nanoseconds, both
  integers here. The wall clock is the sequence of its future readings: every call of
  \<^verbatim>\<open>time.Now()\<close> takes the next one.
\<close>

type_synonym Time = int
type_synonym Duration = int
type_synonym Clock = "nat \<Rightarrow> Time"

definition Minute :: Duration where
  "Minute = 60 * 1000000000"

definition Now :: "Clock \<Rightarrow> Time \<times> Clock" where
  "Now clk = (clk 0, \<lambda>i. clk (Suc i))"

section \<open>Pod address block\<close>

text \<open>
  \<^verbatim>\<open>strings.Split(s, sep)\<close> for a separator of one byte, as the standard library computes
  it: find the first separator, cut the token before it, go on behind it; what is left
  when no separator is found is the last token.
\<close>

fun IndexByte :: "string \<Rightarrow> char \<Rightarrow> nat option" where
  "IndexByte [] c = None"
| "IndexByte (x # xs) c = (if x = c then Some 0 else map_option Suc (IndexByte xs c))"

function Split :: "string \<Rightarrow> char \<Rightarrow> string list" where
  "Split s sep =
     (case IndexByte s sep of
        None \<Rightarrow> [s]
      | Some m \<Rightarrow> take m s # Split (drop (m + 1) s) sep)"
  by pat_completeness auto
termination
proof (relation "measure (\<lambda>(s, sep). length s)")
  show "wf (measure (\<lambda>(s, sep). length s))"
    by simp
next
  fix s :: string and sep :: char and m :: nat
  assume found: "IndexByte s sep = Some m"
  have "\<And>k. IndexByte s sep = Some k \<Longrightarrow> k < length s"
    by (induction s) (auto split: if_splits)
  with found have "m < length s"
    by blast
  then show "((drop (m + 1) s, sep), (s, sep)) \<in> measure (\<lambda>(s, sep). length s)"
    by simp
qed

declare Split.simps [simp del]

text \<open>
  \<^verbatim>\<open>GetPodCIDR\<close> reads \<^verbatim>\<open>nodes[0]\<close> without a check of the length, which panics on an
  empty slice.
\<close>

definition GetPodCIDR :: "Node list \<Rightarrow> panic + string" where
  "GetPodCIDR nodes =
     (case nodes of
        [] \<Rightarrow> Inl (IndexOutOfRange 0 0)
      | node0 # _ \<Rightarrow>
          (let token = Split (Spec_PodCIDR node0) (CHR ''.'') in
           if length token \<ge> 2
           then Inr (token ! 0 @ ''.'' @ token ! 1 @ ''.'' @ ''0'' @ ''.'' @ ''0/16'')
           else Inr ''172.17.0.0/16''))"

section \<open>Building the advertisement\<close>

record ObjectMeta =
  Name :: string
  Namespace :: string

record NetworkInfo =
  PodCIDR :: string
  GatewayIP :: string
  GatewayPrivateIP :: string
  SupportedProtocols :: "string list"

record AdvertisementSpec =
  ClusterId :: string
  Images :: "ContainerImage list"
  Availability :: ResourceList
  LimitRange :: "string list"
  Prices :: ResourceList
  Network :: NetworkInfo
  Timestamp :: Time
  TimeToLive :: Time

record Advertisement =
  Meta :: ObjectMeta
  Spec :: AdvertisementSpec

text \<open>
  \<^verbatim>\<open>CreateAdvertisement\<close>: the operands of the composite literal are evaluated in the
  order they are written, so \<^verbatim>\<open>GetPodCIDR(nodes)\<close> runs (and may panic) before the clock
  is read, and the clock is read twice: once for \<^verbatim>\<open>Timestamp\<close>, once more for
  \<^verbatim>\<open>TimeToLive\<close>.
\<close>

definition CreateAdvertisement ::
  "Node list \<Rightarrow> string \<Rightarrow> string \<Rightarrow> string \<Rightarrow> Clock \<Rightarrow> panic + (Advertisement \<times> Clock)" where
  "CreateAdvertisement nodes clusterId gatewayIP gatewayPrivateIp clk =
     (case GetClusterResources nodes of
        (availability, images) \<Rightarrow>
          (let prices = ComputePrices images in
           case GetPodCIDR nodes of
             Inl p \<Rightarrow> Inl p
           | Inr podCIDR \<Rightarrow>
               (case Now clk of
                  (t1, clk1) \<Rightarrow>
                    (case Now clk1 of
                       (t2, clk2) \<Rightarrow>
                         Inr (\<lparr>Meta = \<lparr>Name = ''advertisement-'' @ clusterId,
                                       Namespace = ''default''\<rparr>,
                               Spec = \<lparr>ClusterId = clusterId,
                                       Images = images,
                                       Availability = availability,
                                       LimitRange = [],
                                       Prices = prices,
                                       Network = \<lparr>PodCIDR = podCIDR,
                                                  GatewayIP = gatewayIP,
                                                  GatewayPrivateIP = gatewayPrivateIp,
                                                  SupportedProtocols = []\<rparr>,
                                       Timestamp = t1,
                                       TimeToLive = t2 + 30 * Minute\<rparr>\<rparr>,
                              clk2)))))"

section \<open>The per-peer broadcast task\<close>

text \<open>
  What the task does to the outside is recorded as a trace of events, oldest first:
  every call of \<^verbatim>\<open>pkg.NewCRDClient\<close> for the foreign cluster, the two kinds of log line, every \<^verbatim>\<open>time.Sleep\<close> with its duration, every call of
  \<^verbatim>\<open>pkg.CreateOrUpdate\<close> with the advertisement it sends, every start of
  \<^verbatim>\<open>WatchAdvertisement\<close> (with the local and the foreign cluster id), and the deferred
  \<^verbatim>\<open>wg.Done()\<close>.
\<close>

type_synonym err = string
type_synonym Client = string

datatype event =
    CallNewCRDClient
  | LogError err string
  | LogInfo string
  | Sleep Duration
  | CallCreateOrUpdate Advertisement
  | StartWatchAdvertisement string string
  | WgDone

text \<open>
  The local state of one run of \<^verbatim>\<open>GenerateAdvertisement\<close>: the trace, the
  \<^verbatim>\<open>sync.Once\<close> declared in the function body (\<open>once_done\<close> holds after its first
  \<^verbatim>\<open>Do\<close>), and the clock.
\<close>

record task =
  trace :: "event list"
  once_done :: bool
  clock :: Clock

definition emit :: "event \<Rightarrow> task \<Rightarrow> task" where
  "emit e t = t\<lparr>trace := trace t @ [e]\<rparr>"

text \<open>\<^verbatim>\<open>once.Do(f)\<close> runs \<open>f\<close> on the first call and does nothing on every later one.\<close>

definition once_Do :: "event \<Rightarrow> task \<Rightarrow> task" where
  "once_Do e t = (if once_done t then t else emit e (t\<lparr>once_done := True\<rparr>))"

text \<open>
  The answers of the outside world. \<^verbatim>\<open>pkg.NewCRDClient\<close> for the foreign cluster answers
  the \<open>i\<close>-th call of the task with an error or a client. In each cycle of the publish
  loop the local cluster answers the node listing with an error or the nodes, and the
  foreign cluster answers \<^verbatim>\<open>pkg.CreateOrUpdate\<close> with an error or \<^verbatim>\<open>nil\<close>.
\<close>

type_synonym connector = "nat \<Rightarrow> err + Client"

record cycle =
  Nodes_List :: "err + Node list"
  CreateOrUpdate :: "err option"

text \<open>
  The connect loop
  \<^verbatim>\<open>for retry = 0; retry < 3; retry++ { remoteClient, err = pkg.NewCRDClient(...); ... }\<close>
  on the variables \<^verbatim>\<open>retry\<close>, \<^verbatim>\<open>remoteClient\<close> and \<^verbatim>\<open>err\<close>; it returns them as the
  loop leaves them.
\<close>

function connect_loop ::
  "connector \<Rightarrow> string \<Rightarrow> nat \<Rightarrow> Client option \<Rightarrow> err option \<Rightarrow> task
    \<Rightarrow> nat \<times> Client option \<times> err option \<times> task" where
  "connect_loop NewCRDClient foreignClusterId retry remoteClient e t =
     (if retry < 3 then
        (case NewCRDClient retry of
           Inl e' \<Rightarrow>
             connect_loop NewCRDClient foreignClusterId (retry + 1) None (Some e')
               (emit (Sleep (1 * Minute))
                 (emit (LogError e' (''Unable to create client to remote cluster ''
                                      @ foreignClusterId @ ''. Retry in 1 minute''))
                   (emit CallNewCRDClient t)))
         | Inr c \<Rightarrow> (retry, Some c, None, emit CallNewCRDClient t))
      else (retry, remoteClient, e, t))"
  by pat_completeness auto
termination
  by (relation "measure (\<lambda>(NewCRDClient, foreignClusterId, retry, remoteClient, e, t). 3 - retry)")
     auto

declare connect_loop.simps [simp del]

text \<open>
  How a run of the task stands: still in its loop when the observed cycles are over,
  returned, or stopped by a panic (which, in a goroutine, ends the whole process).
\<close>

datatype outcome = Running | Returned | Panicked panic

text \<open>
  The publish loop \<^verbatim>\<open>for { ... }\<close>, run over the answers of the cycles observed. The
  goroutine of \<^verbatim>\<open>go once.Do(...)\<close> is recorded where it is spawned.
\<close>

fun publish_loop ::
  "cycle list \<Rightarrow> string \<Rightarrow> string \<Rightarrow> string \<Rightarrow> string \<Rightarrow> task \<Rightarrow> outcome \<times> task" where
  "publish_loop [] clusterId gatewayIP gatewayPrivateIP foreignClusterId t = (Running, t)"
| "publish_loop (c # cs) clusterId gatewayIP gatewayPrivateIP foreignClusterId t =
     (case Nodes_List c of
        Inl e \<Rightarrow> (Returned, emit (LogError e ''Unable to list nodes'') t)
      | Inr nodes \<Rightarrow>
          (case CreateAdvertisement nodes clusterId gatewayIP gatewayPrivateIP (clock t) of
             Inl p \<Rightarrow> (Panicked p, t)
           | Inr (adv, clk) \<Rightarrow>
               (let t1 = emit (CallCreateOrUpdate adv) (t\<lparr>clock := clk\<rparr>);
                    t2 = (case CreateOrUpdate c of
                            Some e \<Rightarrow>
                              emit (LogError e (''Unable to create advertisement on remote cluster ''
                                                 @ foreignClusterId)) t1
                          | None \<Rightarrow>
                              once_Do (StartWatchAdvertisement clusterId foreignClusterId)
                                (emit (LogInfo (''correctly created advertisement on remote cluster ''
                                                 @ foreignClusterId)) t1));
                    t3 = emit (Sleep (10 * Minute)) t2
                in publish_loop cs clusterId gatewayIP gatewayPrivateIP foreignClusterId t3)))"

record ConfigMap =
  cm_Name :: string

text \<open>
  \<^verbatim>\<open>cm.Name[len("foreign-kubeconfig-"):]\<close>: a slice expression with low bound 19, which
  panics when the name is shorter.
\<close>

definition slice_from :: "nat \<Rightarrow> string \<Rightarrow> panic + string" where
  "slice_from lo s =
     (if lo \<le> length s then Inr (drop lo s) else Inl (SliceBoundsOutOfRange lo (length s)))"

text \<open>
  \<^verbatim>\<open>defer wg.Done()\<close> runs when the function returns and when it panics, not while the
  task is in its loop.
\<close>

definition deferred_Done :: "outcome \<times> task \<Rightarrow> outcome \<times> task" where
  "deferred_Done r = (case r of (Running, t) \<Rightarrow> (Running, t) | (out, t) \<Rightarrow> (out, emit WgDone t))"

definition GenerateAdvertisement ::
  "connector \<Rightarrow> cycle list \<Rightarrow> ConfigMap option \<Rightarrow> string \<Rightarrow> string \<Rightarrow> string \<Rightarrow> task
    \<Rightarrow> outcome \<times> task" where
  "GenerateAdvertisement NewCRDClient cycles cm clusterId gatewayIP gatewayPrivateIP t =
     deferred_Done
       (case (case cm of
                None \<Rightarrow> Inr []
              | Some c \<Rightarrow> slice_from (length ''foreign-kubeconfig-'') (cm_Name c)) of
          Inl p \<Rightarrow> (Panicked p, t)
        | Inr foreignClusterId \<Rightarrow>
            (case connect_loop NewCRDClient foreignClusterId 0 None None t of
               (retry, remoteClient, e, t1) \<Rightarrow>
                 if retry = 3
                 then (Returned,
                       emit (LogError (case e of Some x \<Rightarrow> x | None \<Rightarrow> [])
                              (''Failed to create client to remote cluster '' @ foreignClusterId)) t1)
                 else publish_loop cycles clusterId gatewayIP gatewayPrivateIP foreignClusterId
                        (emit (LogInfo (''created client to remote cluster '' @ foreignClusterId)) t1)))"

section \<open>Peer discovery\<close>

definition HasPrefix :: "string \<Rightarrow> string \<Rightarrow> bool" where
  "HasPrefix s prefix = (length s \<ge> length prefix \<and> take (length prefix) s = prefix)"

text \<open>
  What each peer's task meets: the answers of its connector, the cycles observed, and
  its clock. A fresh task has an empty trace and an unused \<^verbatim>\<open>sync.Once\<close>.
\<close>

record peer_env =
  peer_connector :: connector
  peer_cycles :: "cycle list"
  peer_clock :: Clock

definition new_task :: "Clock \<Rightarrow> task" where
  "new_task clk = \<lparr>trace = [], once_done = False, clock = clk\<rparr>"

text \<open>
  The loop of \<^verbatim>\<open>StartBroadcaster\<close> over \<^verbatim>\<open>configMaps.Items\<close>: one task per record whose
  name has the prefix \<^verbatim>\<open>foreign-kubeconfig\<close>. Every task has its own local variables, so
  each is run on its own state; the result lists the tasks in the order they were started.
\<close>

fun spawn_tasks ::
  "ConfigMap list \<Rightarrow> (string \<Rightarrow> peer_env) \<Rightarrow> string \<Rightarrow> string \<Rightarrow> string
    \<Rightarrow> (outcome \<times> task) list" where
  "spawn_tasks [] peers clusterId gatewayIP gatewayPrivateIP = []"
| "spawn_tasks (cm # rest) peers clusterId gatewayIP gatewayPrivateIP =
     (if HasPrefix (cm_Name cm) ''foreign-kubeconfig''
      then GenerateAdvertisement (peer_connector (peers (cm_Name cm)))
             (peer_cycles (peers (cm_Name cm))) (Some cm) clusterId gatewayIP gatewayPrivateIP
             (new_task (peer_clock (peers (cm_Name cm))))
           # spawn_tasks rest peers clusterId gatewayIP gatewayPrivateIP
      else spawn_tasks rest peers clusterId gatewayIP gatewayPrivateIP)"

text \<open>
  \<^verbatim>\<open>StartBroadcaster\<close>: the two local clients and the listing of the configuration records
  may fail, each ending the start with a log line; otherwise the tasks are started.
\<close>

record broadcaster_env =
  NewK8sClient :: "err option"
  NewCRDClient_local :: "err option"
  ConfigMaps_List :: "err + ConfigMap list"
  peers_env :: "string \<Rightarrow> peer_env"

datatype broadcaster = NotStarted "event list" | Started "(outcome \<times> task) list"

definition StartBroadcaster ::
  "broadcaster_env \<Rightarrow> string \<Rightarrow> string \<Rightarrow> string \<Rightarrow> broadcaster" where
  "StartBroadcaster env clusterId gatewayIP gatewayPrivateIP =
     (case NewK8sClient env of
        Some e \<Rightarrow> NotStarted [LogInfo ''starting broadcaster'',
                               LogError e ''Unable to create client to local cluster'']
      | None \<Rightarrow>
          (case NewCRDClient_local env of
             Some e \<Rightarrow> NotStarted [LogInfo ''starting broadcaster'',
                                    LogError e ''Unable to create client to local cluster'']
           | None \<Rightarrow>
               (case ConfigMaps_List env of
                  Inl e \<Rightarrow> NotStarted [LogInfo ''starting broadcaster'',
                                        LogError e ''Unable to list configMaps'']
                | Inr items \<Rightarrow>
                    Started (spawn_tasks items (peers_env env) clusterId gatewayIP
                               gatewayPrivateIP))))"

text \<open>A panic in any goroutine ends the process.\<close>

definition process_crashed :: "broadcaster \<Rightarrow> bool" where
  "process_crashed b =
     (case b of NotStarted _ \<Rightarrow> False
      | Started rs \<Rightarrow> list_ex (\<lambda>r. case fst r of Panicked _ \<Rightarrow> True | _ \<Rightarrow> False) rs)"

section \<open>Observations on a trace\<close>

text \<open>
  The number of times the lifecycle watcher was started, and the number of calls of
  \<^verbatim>\<open>pkg.NewCRDClient\<close>, as the trace of a task records them.
\<close>

fun is_watcher_start :: "event \<Rightarrow> bool" where
  "is_watcher_start (StartWatchAdvertisement clusterId foreignClusterId) = True"
| "is_watcher_start e = False"

definition watcher_starts :: "task \<Rightarrow> nat" where
  "watcher_starts t = length (filter is_watcher_start (trace t))"

definition connect_calls :: "task \<Rightarrow> nat" where
  "connect_calls t = length (filter (\<lambda>e. e = CallNewCRDClient) (trace t))"

text \<open>
  A cycle publishes successfully when the node listing answers with at least one node
  and \<^verbatim>\<open>pkg.CreateOrUpdate\<close> answers \<^verbatim>\<open>nil\<close>.
\<close>

definition successful :: "cycle \<Rightarrow> bool" where
  "successful c = (case Nodes_List c of Inr (n # ns) \<Rightarrow> CreateOrUpdate c = None | _ \<Rightarrow> False)"

text \<open>The line the connect loop logs after a failed attempt.\<close>

definition retry_msg :: "string \<Rightarrow> string" where
  "retry_msg foreignClusterId =
     ''Unable to create client to remote cluster '' @ foreignClusterId @ ''. Retry in 1 minute''"

text \<open>
  The state of the \<^verbatim>\<open>sync.Once\<close> agrees with the trace: the watcher was started once if
  the latch is used, and never if it is not.
\<close>

definition latch_ok :: "task \<Rightarrow> bool" where
  "latch_ok t = (watcher_starts t = (if once_done t then 1 else 0))"

text \<open>
  A cycle gets as far as publishing when the node listing answers with at least one node:
  a failed listing makes the task return and an empty one makes it panic, so the cycles
  that precede the first such cycle are the ones the loop runs to their end.
\<close>

definition reaches_publish :: "cycle \<Rightarrow> bool" where
  "reaches_publish c = (case Nodes_List c of Inr (n # ns) \<Rightarrow> True | _ \<Rightarrow> False)"

text \<open>The connector answers with a client at one of the three attempts of the budget.\<close>

definition connects :: "connector \<Rightarrow> bool" where
  "connects N = list_ex (\<lambda>i. case N i of Inr c \<Rightarrow> True | Inl e \<Rightarrow> False) [0, 1, 2]"

text \<open>The name of the configuration record is long enough for the slice expression.\<close>

definition name_sliceable :: "ConfigMap option \<Rightarrow> bool" where
  "name_sliceable cm =
     (case cm of None \<Rightarrow> True
      | Some c \<Rightarrow> length ''foreign-kubeconfig-'' \<le> length (cm_Name c))"

section \<open>Example inputs\<close>

text \<open>
  A node with an assigned pod address block, allocatable CPU 8, memory 16Gi and 110 pods,
  and one image \<^verbatim>\<open>app:v1\<close>; and a node that has no pod address block assigned yet.
\<close>

definition example_node :: Node where
  "example_node =
     \<lparr>Spec_PodCIDR = ''10.32.0.5/24'',
      Status_Allocatable = [''cpu'' \<mapsto> 8, ''memory'' \<mapsto> 16 * 1024 ^ 3, ''pods'' \<mapsto> 110],
      Status_Images = [\<lparr>Names = [''app:v1''], SizeBytes = 100\<rparr>]\<rparr>"

definition example_node_unassigned :: Node where
  "example_node_unassigned =
     \<lparr>Spec_PodCIDR = [],
      Status_Allocatable = [''cpu'' \<mapsto> 4, ''memory'' \<mapsto> 8 * 1024 ^ 3, ''pods'' \<mapsto> 110],
      Status_Images = [\<lparr>Names = [''app:v1''], SizeBytes = 100\<rparr>]\<rparr>"

text \<open>
  A configuration record for the peer \<^verbatim>\<open>peerA\<close>; connectors that answer at once, at the
  third attempt, and never; a cycle that publishes, and one whose node listing fails; a
  clock that stands still and one that advances by one nanosecond per reading.
\<close>

definition example_cm :: ConfigMap where
  "example_cm = \<lparr>cm_Name = ''foreign-kubeconfig-peerA''\<rparr>"

definition connector_ok :: connector where
  "connector_ok i = Inr ''client''"

definition connector_third :: connector where
  "connector_third i = (if i < 2 then Inl ''connection refused'' else Inr ''client'')"

definition connector_never :: connector where
  "connector_never i = Inl ''connection refused''"

definition cycle_ok :: cycle where
  "cycle_ok = \<lparr>Nodes_List = Inr [example_node], CreateOrUpdate = None\<rparr>"

definition cycle_list_fails :: cycle where
  "cycle_list_fails = \<lparr>Nodes_List = Inl ''timeout'', CreateOrUpdate = None\<rparr>"

definition frozen_clock :: "Time \<Rightarrow> Clock" where
  "frozen_clock now i = now"

definition ticking_clock :: Clock where
  "ticking_clock i = 1000 + int i"

text \<open>
  A cycle whose publish the peer rejects; and three peers: \<^verbatim>\<open>peerA\<close> is reached at once
  and accepts three publishes, \<^verbatim>\<open>peerB\<close> is reached at the third attempt, rejects the
  first publish and accepts the second, every other peer is never reached.
\<close>

definition cycle_publish_fails :: cycle where
  "cycle_publish_fails = \<lparr>Nodes_List = Inr [example_node], CreateOrUpdate = Some ''rejected''\<rparr>"

definition example_peers :: "string \<Rightarrow> peer_env" where
  "example_peers name =
     (if name = ''foreign-kubeconfig-peerA''
      then \<lparr>peer_connector = connector_ok, peer_cycles = [cycle_ok, cycle_ok, cycle_ok],
            peer_clock = frozen_clock 0\<rparr>
      else if name = ''foreign-kubeconfig-peerB''
      then \<lparr>peer_connector = connector_third, peer_cycles = [cycle_publish_fails, cycle_ok],
            peer_clock = frozen_clock 0\<rparr>
      else \<lparr>peer_connector = connector_never, peer_cycles = [cycle_ok],
            peer_clock = frozen_clock 0\<rparr>)"

section \<open>Properties of resource aggregation\<close>

lemma append_images_eq: "append_images images xs = images @ xs"
  by (induction xs arbitrary: images) simp_all

lemma GetClusterResources_loop_eq:
  "GetClusterResources_loop nodes (cpu, ram, pods, images) =
     (cpu + sum_list (map (\<lambda>n. Cpu (Status_Allocatable n)) nodes),
      ram + sum_list (map (\<lambda>n. Memory (Status_Allocatable n)) nodes),
      pods + sum_list (map (\<lambda>n. Pods (Status_Allocatable n)) nodes),
      images @ concat (map Status_Images nodes))"
proof (induction nodes arbitrary: cpu ram pods images)
  case Nil
  show ?case by simp
next
  case (Cons node rest)
  show ?case
    by (simp add: Cons.IH Add_def append_images_eq add.assoc)
qed

lemma resource_names_distinct:
  "ResourceCPU \<noteq> ResourceMemory" "ResourceCPU \<noteq> ResourcePods" "ResourceMemory \<noteq> ResourcePods"
  by (simp_all add: ResourceCPU_def ResourceMemory_def ResourcePods_def)

text \<open>
  Claim C6. For every node list, the CPU, memory and pod totals of the capacity snapshot
  are the exact sums of the nodes' allocatable CPU, memory and pod quantities, and the
  snapshot has no other entry; the empty node list gives a snapshot whose three
  quantities are zero together with an empty image collection (a result, not an error).
\<close>

theorem GetClusterResources_totals:
  "fst (GetClusterResources nodes) ResourceCPU =
      Some (sum_list (map (\<lambda>n. Cpu (Status_Allocatable n)) nodes))
   \<and> fst (GetClusterResources nodes) ResourceMemory =
      Some (sum_list (map (\<lambda>n. Memory (Status_Allocatable n)) nodes))
   \<and> fst (GetClusterResources nodes) ResourcePods =
      Some (sum_list (map (\<lambda>n. Pods (Status_Allocatable n)) nodes))
   \<and> dom (fst (GetClusterResources nodes)) = {ResourceCPU, ResourceMemory, ResourcePods}
   \<and> GetClusterResources [] =
      (((Map.empty(ResourceCPU \<mapsto> 0))(ResourceMemory \<mapsto> 0))(ResourcePods \<mapsto> 0), [])"
  using resource_names_distinct
  by (auto simp add: GetClusterResources_def GetClusterResources_loop_eq)

lemma GetClusterResources_images_eq:
  "snd (GetClusterResources nodes) = concat (map Status_Images nodes)"
  by (simp add: GetClusterResources_def GetClusterResources_loop_eq)

text \<open>
  Claim C7, as stated: the image collection is a set, so no image appears in it more than
  once even when several nodes report it. Two nodes that both report \<^verbatim>\<open>app:v1\<close> give a
  collection that holds it twice.
\<close>

theorem GetClusterResources_images_set_counterexample:
  "\<not> distinct (snd (GetClusterResources [example_node, example_node_unassigned]))"
  by (simp add: GetClusterResources_images_eq example_node_def example_node_unassigned_def)

text \<open>
  Claim C7, amended. The image collection is the nodes' image lists one after the other,
  in node order: it holds exactly the images the nodes report, and each image as many
  times as it is reported.
\<close>

theorem GetClusterResources_images:
  "snd (GetClusterResources nodes) = concat (map Status_Images nodes)
   \<and> set (snd (GetClusterResources nodes)) = \<Union> (set (map (\<lambda>n. set (Status_Images n)) nodes))
   \<and> count_list (snd (GetClusterResources nodes)) img =
       sum_list (map (\<lambda>n. count_list (Status_Images n) img) nodes)"
proof (intro conjI)
  show "snd (GetClusterResources nodes) = concat (map Status_Images nodes)"
    by (rule GetClusterResources_images_eq)
  show "set (snd (GetClusterResources nodes)) = \<Union> (set (map (\<lambda>n. set (Status_Images n)) nodes))"
    by (simp add: GetClusterResources_images_eq)
  show "count_list (snd (GetClusterResources nodes)) img =
       sum_list (map (\<lambda>n. count_list (Status_Images n) img) nodes)"
    unfolding GetClusterResources_images_eq by (induction nodes) simp_all
qed

section \<open>Properties of pricing\<close>

lemma dom_ComputePrices_names:
  "dom (ComputePrices_names prices names) = dom prices \<union> set names"
  by (induction names arbitrary: prices) auto

lemma dom_ComputePrices_loop:
  "dom (ComputePrices_loop prices images) = dom prices \<union> set (concat (map Names images))"
  by (induction images arbitrary: prices) (auto simp add: dom_ComputePrices_names)

lemma dom_ComputePrices:
  "dom (ComputePrices images) = {ResourceCPU, ResourceMemory} \<union> set (concat (map Names images))"
  by (auto simp add: ComputePrices_def dom_ComputePrices_loop)

lemma dom_GetClusterResources:
  "dom (fst (GetClusterResources nodes)) = {ResourceCPU, ResourceMemory, ResourcePods}"
  by (auto simp add: GetClusterResources_def GetClusterResources_loop_eq)

text \<open>
  Claim C2, as stated: the price list has an entry for every resource kind of the capacity
  snapshot. For a single node, the snapshot has a pod-slot entry and the price list
  computed from the aggregated images has none.
\<close>

theorem ComputePrices_pods_counterexample:
  "ResourcePods \<in> dom (fst (GetClusterResources [example_node]))
   \<and> ResourcePods \<notin> dom (ComputePrices (snd (GetClusterResources [example_node])))"
  by (simp add: dom_ComputePrices dom_GetClusterResources GetClusterResources_images_eq
      example_node_def ResourcePods_def ResourceCPU_def ResourceMemory_def)

text \<open>
  Claim C2, amended. For every node list, the entries of the price list are exactly CPU,
  memory and every name of every image that aggregation returns; pod slots have an entry
  only when an image carries that name.
\<close>

theorem ComputePrices_entries:
  "dom (ComputePrices (snd (GetClusterResources nodes))) =
     {ResourceCPU, ResourceMemory}
       \<union> set (concat (map Names (snd (GetClusterResources nodes))))
   \<and> (ResourcePods \<in> dom (ComputePrices (snd (GetClusterResources nodes))))
       = (ResourcePods \<in> set (concat (map Names (concat (map Status_Images nodes)))))"
  using resource_names_distinct
  by (auto simp add: dom_ComputePrices GetClusterResources_images_eq)

section \<open>Properties of the pod address block\<close>








section \<open>Properties of advertisement building\<close>

text \<open>What \<^verbatim>\<open>CreateAdvertisement\<close> returns for a node list that is not empty.\<close>

lemma CreateAdvertisement_Cons:
  "CreateAdvertisement (n # ns) cid g gp clk =
     Inr (\<lparr>Meta = \<lparr>Name = ''advertisement-'' @ cid, Namespace = ''default''\<rparr>,
           Spec = \<lparr>ClusterId = cid,
                   Images = snd (GetClusterResources (n # ns)),
                   Availability = fst (GetClusterResources (n # ns)),
                   LimitRange = [],
                   Prices = ComputePrices (snd (GetClusterResources (n # ns))),
                   Network = \<lparr>PodCIDR = projr (GetPodCIDR (n # ns)),
                              GatewayIP = g, GatewayPrivateIP = gp, SupportedProtocols = []\<rparr>,
                   Timestamp = clk 0,
                   TimeToLive = clk 1 + 30 * Minute\<rparr>\<rparr>,
          \<lambda>i. clk (Suc (Suc i)))"
  by (simp add: CreateAdvertisement_def GetPodCIDR_def Let_def Now_def split: prod.splits)

lemma CreateAdvertisement_Nil: "CreateAdvertisement [] cid g gp clk = Inl (IndexOutOfRange 0 0)"
  by (simp add: CreateAdvertisement_def GetPodCIDR_def split: prod.splits)

text \<open>
  Claim C4, as stated: the expiry is exactly the creation time plus 30 minutes. The
  builder reads the clock once for each of the two fields; on a clock that advances
  between the two readings, the creation time is 1000 and the expiry is not
  1000 plus 30 minutes.
\<close>

theorem CreateAdvertisement_ttl_counterexample:
  "\<not> isl (CreateAdvertisement [example_node] ''cluster1'' ''1.2.3.4'' ''10.0.0.1'' ticking_clock)
   \<and> Timestamp (Spec (fst (projr (CreateAdvertisement [example_node]
         ''cluster1'' ''1.2.3.4'' ''10.0.0.1'' ticking_clock)))) = 1000
   \<and> TimeToLive (Spec (fst (projr (CreateAdvertisement [example_node]
         ''cluster1'' ''1.2.3.4'' ''10.0.0.1'' ticking_clock)))) \<noteq> 1000 + 30 * Minute"
  by (simp add: CreateAdvertisement_Cons ticking_clock_def)

text \<open>
  Claim C4, amended. For a node list that is not empty, the builder returns an
  advertisement whose creation time is the first reading of the clock and whose expiry is
  the second reading plus 30 minutes; when both readings are the same instant \<open>now\<close>, the
  creation time is \<open>now\<close> and the expiry exactly \<open>now\<close> plus 30 minutes. Two builds from
  the same arguments, on clocks that agree on these two readings, return the same
  advertisement (or the same failure).
\<close>

theorem CreateAdvertisement_timestamps:
  "(nodes \<noteq> []
     \<longrightarrow> \<not> isl (CreateAdvertisement nodes cid g gp clk)
         \<and> Timestamp (Spec (fst (projr (CreateAdvertisement nodes cid g gp clk)))) = clk 0
         \<and> TimeToLive (Spec (fst (projr (CreateAdvertisement nodes cid g gp clk))))
             = clk 1 + 30 * Minute)
   \<and> (nodes \<noteq> [] \<and> clk 0 = now \<and> clk 1 = now
     \<longrightarrow> Timestamp (Spec (fst (projr (CreateAdvertisement nodes cid g gp clk)))) = now
         \<and> TimeToLive (Spec (fst (projr (CreateAdvertisement nodes cid g gp clk))))
             = now + 30 * Minute)
   \<and> (clk 0 = clk2 0 \<and> clk 1 = clk2 1
     \<longrightarrow> map_sum id fst (CreateAdvertisement nodes cid g gp clk)
           = map_sum id fst (CreateAdvertisement nodes cid g gp clk2))"
proof (cases nodes)
  case Nil
  then show ?thesis
    by (simp add: CreateAdvertisement_Nil)
next
  case (Cons n ns)
  then show ?thesis
    by (auto simp add: CreateAdvertisement_Cons)
qed

theorem CreateAdvertisement_timestamps_witness:
  "[example_node] \<noteq> [] \<and> frozen_clock 1000 0 = 1000 \<and> frozen_clock 1000 1 = 1000
   \<and> frozen_clock 1000 0 = frozen_clock 1000 0
   \<and> Timestamp (Spec (fst (projr (CreateAdvertisement [example_node]
         ''cluster1'' ''1.2.3.4'' ''10.0.0.1'' (frozen_clock 1000))))) = 1000
   \<and> TimeToLive (Spec (fst (projr (CreateAdvertisement [example_node]
         ''cluster1'' ''1.2.3.4'' ''10.0.0.1'' (frozen_clock 1000))))) = 1000 + 30 * Minute"
  using CreateAdvertisement_timestamps [of "[example_node]" "''cluster1''" "''1.2.3.4''"
      "''10.0.0.1''" "frozen_clock 1000" 1000 "frozen_clock 1000"]
  by (simp add: frozen_clock_def)

text \<open>
  Claim C10. Deriving the pod address block reads the first node without a check, so it
  fails with an index out of range on the empty node list, and so does the building of
  the advertisement, which never gets to an advertisement with zero capacity; on every
  node list that is not empty the building succeeds. In the publish loop a cycle whose
  node listing answers with no node stops the task with that panic.
\<close>

theorem CreateAdvertisement_empty_nodes:
  "GetPodCIDR [] = Inl (IndexOutOfRange 0 0)
   \<and> CreateAdvertisement [] cid g gp clk = Inl (IndexOutOfRange 0 0)
   \<and> \<not> isl (GetPodCIDR (n # ns))
   \<and> \<not> isl (CreateAdvertisement (n # ns) cid g gp clk)
   \<and> publish_loop (\<lparr>Nodes_List = Inr [], CreateOrUpdate = r\<rparr> # cs) cid g gp fid t
        = (Panicked (IndexOutOfRange 0 0), t)"
  by (simp add: CreateAdvertisement_Cons CreateAdvertisement_Nil)
     (simp add: GetPodCIDR_def Let_def)

section \<open>Properties of the connect loop\<close>

lemma connect_loop_fail:
  "retry < 3 \<Longrightarrow> N retry = Inl e' \<Longrightarrow>
   connect_loop N fid retry rc e t =
     connect_loop N fid (Suc retry) None (Some e')
       (emit (Sleep (1 * Minute)) (emit (LogError e' (retry_msg fid)) (emit CallNewCRDClient t)))"
  by (subst connect_loop.simps) (simp add: retry_msg_def)

lemma connect_loop_ok:
  "retry < 3 \<Longrightarrow> N retry = Inr c \<Longrightarrow>
   connect_loop N fid retry rc e t = (retry, Some c, None, emit CallNewCRDClient t)"
  by (subst connect_loop.simps) simp

lemma connect_loop_exit:
  "\<not> retry < 3 \<Longrightarrow> connect_loop N fid retry rc e t = (retry, rc, e, t)"
  by (subst connect_loop.simps) simp

lemma connect_fail_fail_ok:
  assumes "N 0 = Inl e0" "N 1 = Inl e1" "N 2 = Inr c"
  shows "connect_loop N fid 0 None None t =
    (2, Some c, None,
     t\<lparr>trace := trace t @ [CallNewCRDClient, LogError e0 (retry_msg fid), Sleep (1 * Minute),
                          CallNewCRDClient, LogError e1 (retry_msg fid), Sleep (1 * Minute),
                          CallNewCRDClient]\<rparr>)"
proof -
  from assms have a: "N 0 = Inl e0" "N (Suc 0) = Inl e1" "N (Suc (Suc 0)) = Inr c"
    by (simp_all add: numeral_2_eq_2)
  show ?thesis
    by (simp add: connect_loop_fail [where N = N and retry = 0 and e' = e0]
        connect_loop_fail [where N = N and retry = "Suc 0" and e' = e1]
        connect_loop_ok [where N = N and retry = "Suc (Suc 0)" and c = c]
        a emit_def numeral_2_eq_2)
qed

lemma connect_fail_all:
  assumes "N 0 = Inl e0" "N 1 = Inl e1" "N 2 = Inl e2"
  shows "connect_loop N fid 0 None None t =
    (3, None, Some e2,
     t\<lparr>trace := trace t @ [CallNewCRDClient, LogError e0 (retry_msg fid), Sleep (1 * Minute),
                          CallNewCRDClient, LogError e1 (retry_msg fid), Sleep (1 * Minute),
                          CallNewCRDClient, LogError e2 (retry_msg fid), Sleep (1 * Minute)]\<rparr>)"
proof -
  from assms have a: "N 0 = Inl e0" "N (Suc 0) = Inl e1" "N (Suc (Suc 0)) = Inl e2"
    by (simp_all add: numeral_2_eq_2)
  show ?thesis
    by (simp add: connect_loop_fail [where N = N and retry = 0 and e' = e0]
        connect_loop_fail [where N = N and retry = "Suc 0" and e' = e1]
        connect_loop_fail [where N = N and retry = "Suc (Suc 0)" and e' = e2]
        connect_loop_exit a emit_def numeral_3_eq_3)
qed

lemma connect_calls_emit:
  "connect_calls (emit e t) =
     (if e = CallNewCRDClient then Suc (connect_calls t) else connect_calls t)"
  by (simp add: connect_calls_def emit_def)

text \<open>From attempt \<open>retry\<close> on, the loop calls the connector at most \<open>3 - retry\<close> times.\<close>

lemma connect_loop_calls:
  "connect_calls (snd (snd (snd (connect_loop N fid retry rc e t))))
     \<le> connect_calls t + (3 - retry)"
proof (induction N fid retry rc e t rule: connect_loop.induct)
  case (1 N fid retry rc e t)
  show ?case
  proof (cases "retry < 3")
    case False
    then show ?thesis by (subst connect_loop.simps) simp
  next
    case True
    show ?thesis
    proof (cases "N retry")
      case (Inl e')
      from "1.IH" [OF True Inl] True Inl show ?thesis
        by (subst connect_loop.simps) (simp add: connect_calls_emit)
    next
      case (Inr c)
      with True show ?thesis
        by (subst connect_loop.simps) (simp add: connect_calls_emit)
    qed
  qed
qed

text \<open>
  Claim C8. The connect loop has a budget of 3 attempts and sleeps 1 minute after each
  failed one. A connector that fails twice and answers with a client at the third attempt
  leaves the loop with that client after exactly two sleeps of 1 minute, and the task goes
  on into its publish loop. A connector that fails three times makes the task log the
  terminal error and return, whatever the cycles would have answered: no fourth attempt
  and no publish. For every connector the loop makes at most 3 calls.
\<close>

theorem connect_retry_budget:
  "(N 0 = Inl e0 \<and> N 1 = Inl e1 \<and> N 2 = Inr c \<and> cm_Name cm = ''foreign-kubeconfig-'' @ fid
     \<longrightarrow> connect_loop N fid 0 None None t =
           (2, Some c, None,
            t\<lparr>trace := trace t @
               [CallNewCRDClient, LogError e0 (retry_msg fid), Sleep (1 * Minute),
                CallNewCRDClient, LogError e1 (retry_msg fid), Sleep (1 * Minute),
                CallNewCRDClient]\<rparr>)
         \<and> GenerateAdvertisement N cycles (Some cm) cid g gp t =
             deferred_Done (publish_loop cycles cid g gp fid
               (t\<lparr>trace := trace t @
                  [CallNewCRDClient, LogError e0 (retry_msg fid), Sleep (1 * Minute),
                   CallNewCRDClient, LogError e1 (retry_msg fid), Sleep (1 * Minute),
                   CallNewCRDClient, LogInfo (''created client to remote cluster '' @ fid)]\<rparr>)))
   \<and> (N 0 = Inl e0 \<and> N 1 = Inl e1 \<and> N 2 = Inl e2 \<and> cm_Name cm = ''foreign-kubeconfig-'' @ fid
     \<longrightarrow> GenerateAdvertisement N cycles (Some cm) cid g gp t =
           (Returned,
            t\<lparr>trace := trace t @
               [CallNewCRDClient, LogError e0 (retry_msg fid), Sleep (1 * Minute),
                CallNewCRDClient, LogError e1 (retry_msg fid), Sleep (1 * Minute),
                CallNewCRDClient, LogError e2 (retry_msg fid), Sleep (1 * Minute),
                LogError e2 (''Failed to create client to remote cluster '' @ fid),
                WgDone]\<rparr>))
   \<and> connect_calls (snd (snd (snd (connect_loop N fid 0 None None t)))) \<le> connect_calls t + 3"
proof (intro conjI impI)
  assume h: "N 0 = Inl e0 \<and> N 1 = Inl e1 \<and> N 2 = Inr c
               \<and> cm_Name cm = ''foreign-kubeconfig-'' @ fid"
  then have n: "N 0 = Inl e0" "N 1 = Inl e1" "N 2 = Inr c" by simp_all
  show "connect_loop N fid 0 None None t =
           (2, Some c, None,
            t\<lparr>trace := trace t @
               [CallNewCRDClient, LogError e0 (retry_msg fid), Sleep (1 * Minute),
                CallNewCRDClient, LogError e1 (retry_msg fid), Sleep (1 * Minute),
                CallNewCRDClient]\<rparr>)"
    by (rule connect_fail_fail_ok [OF n])
  from h show "GenerateAdvertisement N cycles (Some cm) cid g gp t =
             deferred_Done (publish_loop cycles cid g gp fid
               (t\<lparr>trace := trace t @
                  [CallNewCRDClient, LogError e0 (retry_msg fid), Sleep (1 * Minute),
                   CallNewCRDClient, LogError e1 (retry_msg fid), Sleep (1 * Minute),
                   CallNewCRDClient, LogInfo (''created client to remote cluster '' @ fid)]\<rparr>))"
    by (simp add: GenerateAdvertisement_def slice_from_def connect_fail_fail_ok [OF n] emit_def)
next
  assume h: "N 0 = Inl e0 \<and> N 1 = Inl e1 \<and> N 2 = Inl e2
               \<and> cm_Name cm = ''foreign-kubeconfig-'' @ fid"
  then have n: "N 0 = Inl e0" "N 1 = Inl e1" "N 2 = Inl e2" by simp_all
  from h show "GenerateAdvertisement N cycles (Some cm) cid g gp t =
           (Returned,
            t\<lparr>trace := trace t @
               [CallNewCRDClient, LogError e0 (retry_msg fid), Sleep (1 * Minute),
                CallNewCRDClient, LogError e1 (retry_msg fid), Sleep (1 * Minute),
                CallNewCRDClient, LogError e2 (retry_msg fid), Sleep (1 * Minute),
                LogError e2 (''Failed to create client to remote cluster '' @ fid),
                WgDone]\<rparr>)"
    by (simp add: GenerateAdvertisement_def slice_from_def connect_fail_all [OF n] emit_def
        deferred_Done_def)
next
  show "connect_calls (snd (snd (snd (connect_loop N fid 0 None None t)))) \<le> connect_calls t + 3"
    using connect_loop_calls [of N fid 0 None None t] by simp
qed

theorem connect_retry_budget_witness:
  "connector_third 0 = Inl ''connection refused'' \<and> connector_third 1 = Inl ''connection refused''
   \<and> connector_third 2 = Inr ''client''
   \<and> cm_Name example_cm = ''foreign-kubeconfig-'' @ ''peerA''
   \<and> connect_loop connector_third ''peerA'' 0 None None (new_task (frozen_clock 0)) =
       (2, Some ''client'', None,
        \<lparr>trace = [CallNewCRDClient, LogError ''connection refused'' (retry_msg ''peerA''),
                  Sleep (1 * Minute),
                  CallNewCRDClient, LogError ''connection refused'' (retry_msg ''peerA''),
                  Sleep (1 * Minute),
                  CallNewCRDClient],
         once_done = False, clock = frozen_clock 0\<rparr>)
   \<and> connector_never 2 = Inl ''connection refused''
   \<and> fst (GenerateAdvertisement connector_never [cycle_ok] (Some example_cm)
             ''cluster1'' ''1.2.3.4'' ''10.0.0.1'' (new_task (frozen_clock 0))) = Returned"
  using connect_retry_budget [of connector_third "''connection refused''" "''connection refused''"
      "''client''" example_cm "''peerA''" "new_task (frozen_clock 0)" "[cycle_ok]"]
    connect_retry_budget [of connector_never "''connection refused''" "''connection refused''"
      "''client''" example_cm "''peerA''" "new_task (frozen_clock 0)" "[cycle_ok]"
      "''cluster1''" "''1.2.3.4''" "''10.0.0.1''" "''connection refused''"]
  by (simp add: connector_third_def connector_never_def example_cm_def new_task_def)

section \<open>Properties of the watcher latch\<close>

lemma watcher_starts_emit:
  "watcher_starts (emit e t) = (if is_watcher_start e then Suc (watcher_starts t) else watcher_starts t)"
  by (simp add: watcher_starts_def emit_def)

lemma once_done_emit: "once_done (emit e t) = once_done t"
  by (simp add: emit_def)

lemma latch_ok_emit: "\<not> is_watcher_start e \<Longrightarrow> latch_ok (emit e t) = latch_ok t"
  by (simp add: latch_ok_def watcher_starts_emit once_done_emit)

lemma latch_ok_clock: "latch_ok (t\<lparr>clock := clk\<rparr>) = latch_ok t"
  by (simp add: latch_ok_def watcher_starts_def)

lemma latch_ok_once_Do:
  "latch_ok t \<Longrightarrow> latch_ok (once_Do (StartWatchAdvertisement a b) t)"
  by (simp add: latch_ok_def once_Do_def watcher_starts_def emit_def)

lemma once_done_once_Do: "once_done (once_Do e t)"
  by (simp add: once_Do_def emit_def)

lemma publish_loop_latch_ok:
  "latch_ok t \<Longrightarrow> latch_ok (snd (publish_loop cs cid g gp fid t))"
proof (induction cs arbitrary: t)
  case Nil
  then show ?case by simp
next
  case (Cons c cs)
  show ?case
  proof (cases "Nodes_List c")
    case (Inl e)
    with Cons.prems show ?thesis by (simp add: latch_ok_emit)
  next
    case (Inr nodes)
    show ?thesis
    proof (cases "CreateAdvertisement nodes cid g gp (clock t)")
      case (Inl p)
      with Inr Cons.prems show ?thesis by simp
    next
      case (Inr r)
      obtain adv clk where r: "r = (adv, clk)" by (cases r)
      show ?thesis
      proof (cases "CreateOrUpdate c")
        case None
        have "latch_ok (emit (Sleep (10 * Minute))
                (once_Do (StartWatchAdvertisement cid fid)
                  (emit (LogInfo (''correctly created advertisement on remote cluster '' @ fid))
                    (emit (CallCreateOrUpdate adv) (t\<lparr>clock := clk\<rparr>)))))"
          using Cons.prems by (simp add: latch_ok_emit latch_ok_once_Do latch_ok_clock)
        from Cons.IH [OF this] \<open>Nodes_List c = Inr nodes\<close> Inr r None show ?thesis
          by simp
      next
        case (Some e)
        have "latch_ok (emit (Sleep (10 * Minute))
                  (emit (LogError e (''Unable to create advertisement on remote cluster '' @ fid))
                    (emit (CallCreateOrUpdate adv) (t\<lparr>clock := clk\<rparr>))))"
          using Cons.prems by (simp add: latch_ok_emit latch_ok_clock)
        from Cons.IH [OF this] \<open>Nodes_List c = Inr nodes\<close> Inr r Some show ?thesis
          by simp
      qed
    qed
  qed
qed

lemma publish_loop_once_done:
  "once_done t \<Longrightarrow> once_done (snd (publish_loop cs cid g gp fid t))"
proof (induction cs arbitrary: t)
  case Nil
  then show ?case by simp
next
  case (Cons c cs)
  show ?case
  proof (cases "Nodes_List c")
    case (Inl e)
    with Cons.prems show ?thesis by (simp add: once_done_emit)
  next
    case (Inr nodes)
    show ?thesis
    proof (cases "CreateAdvertisement nodes cid g gp (clock t)")
      case (Inl p)
      with Inr Cons.prems show ?thesis by simp
    next
      case (Inr r)
      obtain adv clk where r: "r = (adv, clk)" by (cases r)
      show ?thesis
      proof (cases "CreateOrUpdate c")
        case None
        have "once_done (emit (Sleep (10 * Minute))
                (once_Do (StartWatchAdvertisement cid fid)
                  (emit (LogInfo (''correctly created advertisement on remote cluster '' @ fid))
                    (emit (CallCreateOrUpdate adv) (t\<lparr>clock := clk\<rparr>)))))"
          by (simp add: once_done_emit once_done_once_Do)
        from Cons.IH [OF this] \<open>Nodes_List c = Inr nodes\<close> Inr r None show ?thesis
          by simp
      next
        case (Some e)
        have "once_done (emit (Sleep (10 * Minute))
                  (emit (LogError e (''Unable to create advertisement on remote cluster '' @ fid))
                    (emit (CallCreateOrUpdate adv) (t\<lparr>clock := clk\<rparr>))))"
          using Cons.prems by (simp add: once_done_emit)
        from Cons.IH [OF this] \<open>Nodes_List c = Inr nodes\<close> Inr r Some show ?thesis
          by simp
      qed
    qed
  qed
qed

lemma publish_loop_first_success:
  assumes "successful c" "latch_ok t"
  shows "watcher_starts (snd (publish_loop (c # cs) cid g gp fid t)) = 1"
proof -
  from assms(1) obtain n ns where nodes: "Nodes_List c = Inr (n # ns)" and ok: "CreateOrUpdate c = None"
    by (auto simp add: successful_def split: sum.splits list.splits)
  obtain adv clk where ca: "CreateAdvertisement (n # ns) cid g gp (clock t) = Inr (adv, clk)"
    by (simp add: CreateAdvertisement_Cons)
  let ?t = "emit (Sleep (10 * Minute))
                (once_Do (StartWatchAdvertisement cid fid)
                  (emit (LogInfo (''correctly created advertisement on remote cluster '' @ fid))
                    (emit (CallCreateOrUpdate adv) (t\<lparr>clock := clk\<rparr>))))"
  have l: "latch_ok ?t"
    using assms(2) by (simp add: latch_ok_emit latch_ok_once_Do latch_ok_clock)
  have d: "once_done ?t"
    by (simp add: once_done_emit once_done_once_Do)
  have eq: "publish_loop (c # cs) cid g gp fid t = publish_loop cs cid g gp fid ?t"
    by (simp add: nodes ok ca)
  from publish_loop_latch_ok [OF l] publish_loop_once_done [OF d] show ?thesis
    unfolding eq by (simp add: latch_ok_def)
qed

lemma connect_loop_latch_ok:
  "latch_ok t \<Longrightarrow> latch_ok (snd (snd (snd (connect_loop N fid retry rc e t))))"
proof (induction N fid retry rc e t rule: connect_loop.induct)
  case (1 N fid retry rc e t)
  show ?case
  proof (cases "retry < 3")
    case False
    with "1.prems" show ?thesis by (subst connect_loop.simps) simp
  next
    case True
    show ?thesis
    proof (cases "N retry")
      case (Inl e')
      have "latch_ok (emit (Sleep (1 * Minute))
                 (emit (LogError e' (''Unable to create client to remote cluster ''
                                      @ fid @ ''. Retry in 1 minute''))
                   (emit CallNewCRDClient t)))"
        using "1.prems" by (simp add: latch_ok_emit)
      from "1.IH" [OF True Inl this] True Inl show ?thesis
        by (subst connect_loop.simps) simp
    next
      case (Inr c)
      with True "1.prems" show ?thesis
        by (subst connect_loop.simps) (simp add: latch_ok_emit)
    qed
  qed
qed

lemma deferred_Done_latch_ok: "latch_ok (snd r) \<Longrightarrow> latch_ok (snd (deferred_Done r))"
  by (cases r) (simp add: deferred_Done_def latch_ok_emit split: outcome.splits)

lemma GenerateAdvertisement_latch_ok:
  assumes "latch_ok t"
  shows "latch_ok (snd (GenerateAdvertisement N cs cm cid g gp t))"
proof -
  let ?fid = "case cm of None \<Rightarrow> Inr [] | Some c \<Rightarrow> slice_from (length ''foreign-kubeconfig-'') (cm_Name c)"
  show ?thesis
  proof (cases ?fid)
    case (Inl p)
    with assms show ?thesis
      by (simp add: GenerateAdvertisement_def deferred_Done_def latch_ok_emit)
  next
    case (Inr fid)
    obtain retry rc e t1 where cl: "connect_loop N fid 0 None None t = (retry, rc, e, t1)"
      by (cases "connect_loop N fid 0 None None t") auto
    from connect_loop_latch_ok [OF assms, of N fid 0 None None] cl have t1: "latch_ok t1"
      by simp
    show ?thesis
    proof (cases "retry = 3")
      case True
      with Inr cl t1 show ?thesis
        by (simp add: GenerateAdvertisement_def deferred_Done_def latch_ok_emit)
    next
      case False
      have "latch_ok (snd (publish_loop cs cid g gp fid
               (emit (LogInfo (''created client to remote cluster '' @ fid)) t1)))"
        using t1 by (intro publish_loop_latch_ok) (simp add: latch_ok_emit)
      then have "latch_ok (snd (deferred_Done (publish_loop cs cid g gp fid
               (emit (LogInfo (''created client to remote cluster '' @ fid)) t1))))"
        by (rule deferred_Done_latch_ok)
      with Inr cl False show ?thesis
        by (simp add: GenerateAdvertisement_def)
    qed
  qed
qed

lemma latch_ok_new_task: "latch_ok (new_task clk)"
  by (simp add: latch_ok_def new_task_def watcher_starts_def)

lemma latch_ok_le: "latch_ok t \<Longrightarrow> watcher_starts t \<le> 1"
  by (simp add: latch_ok_def split: if_splits)

lemma GenerateAdvertisement_new_task_le:
  "watcher_starts (snd (GenerateAdvertisement N cs cm cid g gp (new_task clk))) \<le> 1"
  by (intro latch_ok_le GenerateAdvertisement_latch_ok latch_ok_new_task)

lemma spawn_tasks_latch_ok:
  "list_all (\<lambda>r. watcher_starts (snd r) \<le> 1) (spawn_tasks cms peers cid g gp)"
proof (induction cms)
  case Nil
  show ?case by simp
next
  case (Cons cm cms)
  from Cons GenerateAdvertisement_new_task_le
    [of "peer_connector (peers (cm_Name cm))" "peer_cycles (peers (cm_Name cm))" "Some cm"
        cid g gp "peer_clock (peers (cm_Name cm))"]
  show ?case by simp
qed


lemma publish_loop_successful_Running:
  "list_all successful cs \<Longrightarrow> fst (publish_loop cs cid g gp fid t) = Running"
proof (induction cs arbitrary: t)
  case Nil
  show ?case by simp
next
  case (Cons c cs)
  from Cons.prems have c: "successful c" and rest: "list_all successful cs"
    by simp_all
  from c obtain n ns where nodes: "Nodes_List c = Inr (n # ns)" and ok: "CreateOrUpdate c = None"
    by (auto simp add: successful_def split: sum.splits list.splits)
  show ?case
    by (simp add: nodes ok CreateAdvertisement_Cons Cons.IH [OF rest])
qed

lemma publish_loop_step_success:
  assumes "Nodes_List c = Inr (n # ns)" "CreateOrUpdate c = None"
  shows "publish_loop (c # cs) cid g gp fid t =
     publish_loop cs cid g gp fid
       \<lparr>trace = trace t
          @ [CallCreateOrUpdate (fst (projr (CreateAdvertisement (n # ns) cid g gp (clock t)))),
             LogInfo (''correctly created advertisement on remote cluster '' @ fid)]
          @ (if once_done t then [] else [StartWatchAdvertisement cid fid])
          @ [Sleep (10 * Minute)],
        once_done = True,
        clock = snd (projr (CreateAdvertisement (n # ns) cid g gp (clock t)))\<rparr>"
  using assms by (cases t) (simp add: CreateAdvertisement_Cons once_Do_def emit_def)

lemma publish_loop_step_failure:
  assumes "Nodes_List c = Inr (n # ns)" "CreateOrUpdate c = Some e"
  shows "publish_loop (c # cs) cid g gp fid t =
     publish_loop cs cid g gp fid
       \<lparr>trace = trace t
          @ [CallCreateOrUpdate (fst (projr (CreateAdvertisement (n # ns) cid g gp (clock t)))),
             LogError e (''Unable to create advertisement on remote cluster '' @ fid),
             Sleep (10 * Minute)],
        once_done = once_done t,
        clock = snd (projr (CreateAdvertisement (n # ns) cid g gp (clock t)))\<rparr>"
  using assms by (cases t) (simp add: CreateAdvertisement_Cons emit_def)

lemma publish_loop_watcher_starts:
  "watcher_starts (snd (publish_loop cycles cid g gp fid t)) =
     watcher_starts t
       + (if \<not> once_done t \<and> list_ex successful (takeWhile reaches_publish cycles) then 1 else 0)"
proof (induction cycles arbitrary: t)
  case Nil
  show ?case by simp
next
  case (Cons c cs)
  show ?case
  proof (cases "Nodes_List c")
    case (Inl e)
    then show ?thesis
      by (simp add: reaches_publish_def watcher_starts_emit)
  next
    case (Inr nodes)
    show ?thesis
    proof (cases nodes)
      case Nil
      with Inr show ?thesis
        by (simp add: reaches_publish_def CreateAdvertisement_Nil)
    next
      case (Cons n ns)
      with Inr have nodes: "Nodes_List c = Inr (n # ns)" by simp
      then have r: "reaches_publish c" by (simp add: reaches_publish_def)
      show ?thesis
      proof (cases "CreateOrUpdate c")
        case None
        with nodes have s: "successful c" by (simp add: successful_def)
        show ?thesis
          unfolding publish_loop_step_success [OF nodes None] Cons.IH
          using r s by (simp add: watcher_starts_def)
      next
        case (Some e)
        with nodes have s: "\<not> successful c" by (simp add: successful_def)
        show ?thesis
          unfolding publish_loop_step_failure [OF nodes Some] Cons.IH
          using r s by (simp add: watcher_starts_def)
      qed
    qed
  qed
qed

lemma connect_loop_preserves:
  "once_done (snd (snd (snd (connect_loop N fid retry rc e t)))) = once_done t
   \<and> watcher_starts (snd (snd (snd (connect_loop N fid retry rc e t)))) = watcher_starts t"
proof (induction N fid retry rc e t rule: connect_loop.induct)
  case (1 N fid retry rc e t)
  show ?case
  proof (cases "retry < 3")
    case False
    then show ?thesis by (subst (1 2) connect_loop.simps) simp
  next
    case True
    show ?thesis
    proof (cases "N retry")
      case (Inl e')
      from "1.IH" [OF True Inl] True Inl show ?thesis
        by (subst (1 2) connect_loop.simps) (simp add: watcher_starts_emit once_done_emit)
    next
      case (Inr c)
      with True show ?thesis
        by (subst (1 2) connect_loop.simps) (simp add: watcher_starts_emit once_done_emit)
    qed
  qed
qed

lemma connect_loop_retry_3:
  "(fst (connect_loop N fid 0 None None t) = 3) = (\<not> connects N)"
proof (cases "N 0")
  case (Inr c)
  then show ?thesis
    by (simp add: connect_loop_ok [where N = N and retry = 0 and c = c] connects_def)
next
  case a: (Inl e0)
  show ?thesis
  proof (cases "N (Suc 0)")
    case (Inr c)
    with a show ?thesis
      by (simp add: connect_loop_fail [where N = N and retry = 0 and e' = e0]
          connect_loop_ok [where N = N and retry = "Suc 0" and c = c] connects_def)
  next
    case b: (Inl e1)
    show ?thesis
    proof (cases "N (Suc (Suc 0))")
      case (Inr c)
      with a b show ?thesis
        by (simp add: connect_loop_fail [where N = N and retry = 0 and e' = e0]
            connect_loop_fail [where N = N and retry = "Suc 0" and e' = e1]
            connect_loop_ok [where N = N and retry = "Suc (Suc 0)" and c = c] connects_def
            numeral_2_eq_2)
    next
      case (Inl e2)
      with a b show ?thesis
        by (simp add: connect_loop_fail [where N = N and retry = 0 and e' = e0]
            connect_loop_fail [where N = N and retry = "Suc 0" and e' = e1]
            connect_loop_fail [where N = N and retry = "Suc (Suc 0)" and e' = e2]
            connect_loop_exit connects_def numeral_2_eq_2 numeral_3_eq_3)
    qed
  qed
qed

lemma watcher_starts_deferred_Done:
  "watcher_starts (snd (deferred_Done r)) = watcher_starts (snd r)"
  by (cases r) (simp add: deferred_Done_def watcher_starts_emit split: outcome.splits)

lemma GenerateAdvertisement_watcher_starts:
  "watcher_starts (snd (GenerateAdvertisement N cycles cm cid g gp (new_task clk))) =
     (if name_sliceable cm \<and> connects N
         \<and> list_ex successful (takeWhile reaches_publish cycles)
      then 1 else 0)"
proof -
  have fresh: "watcher_starts (new_task clk) = 0" "\<not> once_done (new_task clk)"
    by (simp_all add: new_task_def watcher_starts_def)
  let ?fid = "case cm of None \<Rightarrow> Inr []
              | Some c \<Rightarrow> slice_from (length ''foreign-kubeconfig-'') (cm_Name c)"
  show ?thesis
  proof (cases ?fid)
    case (Inl p)
    then have "\<not> name_sliceable cm"
      by (auto simp add: name_sliceable_def slice_from_def split: option.splits if_splits)
    with Inl fresh show ?thesis
      by (simp add: GenerateAdvertisement_def deferred_Done_def watcher_starts_emit)
  next
    case (Inr fid)
    then have ok: "name_sliceable cm"
      by (auto simp add: name_sliceable_def slice_from_def split: option.splits if_splits)
    obtain retry rc e t1 where cl: "connect_loop N fid 0 None None (new_task clk) = (retry, rc, e, t1)"
      by (cases "connect_loop N fid 0 None None (new_task clk)") auto
    from connect_loop_preserves [of N fid 0 None None "new_task clk"] cl fresh
    have t1: "watcher_starts t1 = 0" "\<not> once_done t1"
      by simp_all
    from connect_loop_retry_3 [of N fid "new_task clk"] cl
    have r3: "(retry = 3) = (\<not> connects N)"
      by simp
    show ?thesis
    proof (cases "retry = 3")
      case True
      with Inr cl t1 r3 show ?thesis
        by (simp add: GenerateAdvertisement_def deferred_Done_def watcher_starts_emit)
    next
      case False
      with r3 have c: "connects N" by simp
      from Inr cl False have "GenerateAdvertisement N cycles cm cid g gp (new_task clk) =
          deferred_Done (publish_loop cycles cid g gp fid
            (emit (LogInfo (''created client to remote cluster '' @ fid)) t1))"
        by (simp add: GenerateAdvertisement_def)
      then show ?thesis
        using t1 ok c
        by (simp add: watcher_starts_deferred_Done publish_loop_watcher_starts
            watcher_starts_emit once_done_emit)
    qed
  qed
qed

lemma spawn_tasks_eq:
  "spawn_tasks cms peers cid g gp =
     map (\<lambda>cm. GenerateAdvertisement (peer_connector (peers (cm_Name cm)))
                 (peer_cycles (peers (cm_Name cm))) (Some cm) cid g gp
                 (new_task (peer_clock (peers (cm_Name cm)))))
       (filter (\<lambda>cm. HasPrefix (cm_Name cm) ''foreign-kubeconfig'') cms)"
  by (induction cms) simp_all

lemma spawn_tasks_watcher_starts:
  "map (\<lambda>r. watcher_starts (snd r)) (spawn_tasks cms peers cid g gp) =
     map (\<lambda>cm. if name_sliceable (Some cm) \<and> connects (peer_connector (peers (cm_Name cm)))
                   \<and> list_ex successful (takeWhile reaches_publish (peer_cycles (peers (cm_Name cm))))
                then 1 else 0)
       (filter (\<lambda>cm. HasPrefix (cm_Name cm) ''foreign-kubeconfig'') cms)"
  unfolding spawn_tasks_eq by (simp add: GenerateAdvertisement_watcher_starts o_def)


text \<open>
  Claim C9. One cycle of the publish loop, exactly: a successful publish appends the call,
  the log line, the start of the watcher if and only if the latch was unused, and the
  sleep, and leaves the latch used; a failed publish appends the call, the error line and
  the sleep, starts nothing and leaves the latch as it was. So over any cycles the number
  of watcher starts grows by one exactly when the latch was unused and one of the cycles
  the loop ran published successfully: the first successful publish starts the watcher,
  failed publishes before it do not, and no later publish starts it again. A task run
  from its start has started the watcher once if its name can be sliced, its connector
  answered within the budget and one of its cycles published successfully, and never
  otherwise. The broadcaster runs each task on a fresh latch of its own: the result of
  each task is what that task gives alone, and the numbers of watcher starts of the tasks
  are those each peer's own answers determine. In particular N > 0 consecutive successful
  publishes from an unused latch start the watcher exactly once, and no task starts it
  twice.
\<close>

theorem watcher_started_once:
  "(Nodes_List c = Inr (n # ns) \<and> CreateOrUpdate c = None
     \<longrightarrow> publish_loop (c # cs) cid g gp fid t =
           publish_loop cs cid g gp fid
             \<lparr>trace = trace t
                @ [CallCreateOrUpdate
                     (fst (projr (CreateAdvertisement (n # ns) cid g gp (clock t)))),
                   LogInfo (''correctly created advertisement on remote cluster '' @ fid)]
                @ (if once_done t then [] else [StartWatchAdvertisement cid fid])
                @ [Sleep (10 * Minute)],
              once_done = True,
              clock = snd (projr (CreateAdvertisement (n # ns) cid g gp (clock t)))\<rparr>)
   \<and> (Nodes_List c = Inr (n # ns) \<and> CreateOrUpdate c = Some e
     \<longrightarrow> publish_loop (c # cs) cid g gp fid t =
           publish_loop cs cid g gp fid
             \<lparr>trace = trace t
                @ [CallCreateOrUpdate
                     (fst (projr (CreateAdvertisement (n # ns) cid g gp (clock t)))),
                   LogError e (''Unable to create advertisement on remote cluster '' @ fid),
                   Sleep (10 * Minute)],
              once_done = once_done t,
              clock = snd (projr (CreateAdvertisement (n # ns) cid g gp (clock t)))\<rparr>)
   \<and> watcher_starts (snd (publish_loop cycles cid g gp fid t)) =
       watcher_starts t
         + (if \<not> once_done t \<and> list_ex successful (takeWhile reaches_publish cycles)
            then 1 else 0)
   \<and> watcher_starts (snd (GenerateAdvertisement N cycles cm cid g gp (new_task clk))) =
       (if name_sliceable cm \<and> connects N
           \<and> list_ex successful (takeWhile reaches_publish cycles)
        then 1 else 0)
   \<and> spawn_tasks cms peers cid g gp =
       map (\<lambda>cm. GenerateAdvertisement (peer_connector (peers (cm_Name cm)))
                   (peer_cycles (peers (cm_Name cm))) (Some cm) cid g gp
                   (new_task (peer_clock (peers (cm_Name cm)))))
         (filter (\<lambda>cm. HasPrefix (cm_Name cm) ''foreign-kubeconfig'') cms)
   \<and> map (\<lambda>r. watcher_starts (snd r)) (spawn_tasks cms peers cid g gp) =
       map (\<lambda>cm. if name_sliceable (Some cm)
                      \<and> connects (peer_connector (peers (cm_Name cm)))
                      \<and> list_ex successful
                          (takeWhile reaches_publish (peer_cycles (peers (cm_Name cm))))
                  then 1 else 0)
         (filter (\<lambda>cm. HasPrefix (cm_Name cm) ''foreign-kubeconfig'') cms)
   \<and> (successful c \<and> \<not> once_done t \<and> watcher_starts t = 0
     \<longrightarrow> watcher_starts (snd (publish_loop [c] cid g gp fid t)) = 1
         \<and> watcher_starts (snd (publish_loop (c # cs) cid g gp fid t)) = 1)
   \<and> (cycles \<noteq> [] \<and> list_all successful cycles \<and> \<not> once_done t \<and> watcher_starts t = 0
     \<longrightarrow> watcher_starts (snd (publish_loop cycles cid g gp fid t)) = 1
         \<and> fst (publish_loop cycles cid g gp fid t) = Running)
   \<and> watcher_starts (snd (GenerateAdvertisement N cycles cm cid g gp (new_task clk))) \<le> 1
   \<and> list_all (\<lambda>r. watcher_starts (snd r) \<le> 1) (spawn_tasks cms peers cid g gp)"
proof (intro conjI impI)
  assume h: "Nodes_List c = Inr (n # ns) \<and> CreateOrUpdate c = None"
  then have a: "Nodes_List c = Inr (n # ns)" and b: "CreateOrUpdate c = None" by simp_all
  show "publish_loop (c # cs) cid g gp fid t =
           publish_loop cs cid g gp fid
             \<lparr>trace = trace t
                @ [CallCreateOrUpdate
                     (fst (projr (CreateAdvertisement (n # ns) cid g gp (clock t)))),
                   LogInfo (''correctly created advertisement on remote cluster '' @ fid)]
                @ (if once_done t then [] else [StartWatchAdvertisement cid fid])
                @ [Sleep (10 * Minute)],
              once_done = True,
              clock = snd (projr (CreateAdvertisement (n # ns) cid g gp (clock t)))\<rparr>"
    by (rule publish_loop_step_success [OF a b])
next
  assume h: "Nodes_List c = Inr (n # ns) \<and> CreateOrUpdate c = Some e"
  then have a: "Nodes_List c = Inr (n # ns)" and b: "CreateOrUpdate c = Some e" by simp_all
  show "publish_loop (c # cs) cid g gp fid t =
           publish_loop cs cid g gp fid
             \<lparr>trace = trace t
                @ [CallCreateOrUpdate
                     (fst (projr (CreateAdvertisement (n # ns) cid g gp (clock t)))),
                   LogError e (''Unable to create advertisement on remote cluster '' @ fid),
                   Sleep (10 * Minute)],
              once_done = once_done t,
              clock = snd (projr (CreateAdvertisement (n # ns) cid g gp (clock t)))\<rparr>"
    by (rule publish_loop_step_failure [OF a b])
next
  show "watcher_starts (snd (publish_loop cycles cid g gp fid t)) =
       watcher_starts t
         + (if \<not> once_done t \<and> list_ex successful (takeWhile reaches_publish cycles)
            then 1 else 0)"
    by (rule publish_loop_watcher_starts)
next
  show "watcher_starts (snd (GenerateAdvertisement N cycles cm cid g gp (new_task clk))) =
       (if name_sliceable cm \<and> connects N
           \<and> list_ex successful (takeWhile reaches_publish cycles)
        then 1 else 0)"
    by (rule GenerateAdvertisement_watcher_starts)
next
  show "spawn_tasks cms peers cid g gp =
       map (\<lambda>cm. GenerateAdvertisement (peer_connector (peers (cm_Name cm)))
                   (peer_cycles (peers (cm_Name cm))) (Some cm) cid g gp
                   (new_task (peer_clock (peers (cm_Name cm)))))
         (filter (\<lambda>cm. HasPrefix (cm_Name cm) ''foreign-kubeconfig'') cms)"
    by (rule spawn_tasks_eq)
next
  show "map (\<lambda>r. watcher_starts (snd r)) (spawn_tasks cms peers cid g gp) =
       map (\<lambda>cm. if name_sliceable (Some cm)
                      \<and> connects (peer_connector (peers (cm_Name cm)))
                      \<and> list_ex successful
                          (takeWhile reaches_publish (peer_cycles (peers (cm_Name cm))))
                  then 1 else 0)
         (filter (\<lambda>cm. HasPrefix (cm_Name cm) ''foreign-kubeconfig'') cms)"
    by (rule spawn_tasks_watcher_starts)
next
  assume h: "successful c \<and> \<not> once_done t \<and> watcher_starts t = 0"
  then have l: "latch_ok t" by (simp add: latch_ok_def)
  from h l show "watcher_starts (snd (publish_loop [c] cid g gp fid t)) = 1"
    by (intro publish_loop_first_success) simp_all
  from h l show "watcher_starts (snd (publish_loop (c # cs) cid g gp fid t)) = 1"
    by (intro publish_loop_first_success) simp_all
next
  assume h: "cycles \<noteq> [] \<and> list_all successful cycles \<and> \<not> once_done t \<and> watcher_starts t = 0"
  then have l: "latch_ok t" by (simp add: latch_ok_def)
  from h obtain c cs where cycles: "cycles = c # cs" and c: "successful c"
    by (cases cycles) auto
  from c l show "watcher_starts (snd (publish_loop cycles cid g gp fid t)) = 1"
    unfolding cycles by (rule publish_loop_first_success)
  from h show "fst (publish_loop cycles cid g gp fid t) = Running"
    by (intro publish_loop_successful_Running) simp
next
  show "watcher_starts (snd (GenerateAdvertisement N cycles cm cid g gp (new_task clk))) \<le> 1"
    by (rule GenerateAdvertisement_new_task_le)
next
  show "list_all (\<lambda>r. watcher_starts (snd r) \<le> 1) (spawn_tasks cms peers cid g gp)"
    by (rule spawn_tasks_latch_ok)
qed

theorem watcher_started_once_witness:
  "Nodes_List cycle_ok = Inr [example_node] \<and> CreateOrUpdate cycle_ok = None
   \<and> Nodes_List cycle_publish_fails = Inr [example_node]
   \<and> CreateOrUpdate cycle_publish_fails = Some ''rejected''
   \<and> successful cycle_ok \<and> [cycle_ok, cycle_ok, cycle_ok] \<noteq> []
   \<and> list_all successful [cycle_ok, cycle_ok, cycle_ok]
   \<and> \<not> once_done (new_task (frozen_clock 0)) \<and> watcher_starts (new_task (frozen_clock 0)) = 0
   \<and> watcher_starts (snd (publish_loop [cycle_ok, cycle_ok, cycle_ok]
         ''cluster1'' ''1.2.3.4'' ''10.0.0.1'' ''peerA'' (new_task (frozen_clock 0)))) = 1
   \<and> watcher_starts (snd (publish_loop [cycle_publish_fails, cycle_publish_fails]
         ''cluster1'' ''1.2.3.4'' ''10.0.0.1'' ''peerA'' (new_task (frozen_clock 0)))) = 0
   \<and> watcher_starts (snd (publish_loop [cycle_publish_fails, cycle_ok, cycle_ok]
         ''cluster1'' ''1.2.3.4'' ''10.0.0.1'' ''peerA'' (new_task (frozen_clock 0)))) = 1
   \<and> publish_loop [cycle_publish_fails] ''cluster1'' ''1.2.3.4'' ''10.0.0.1'' ''peerA''
         (new_task (frozen_clock 0)) =
       (Running,
        \<lparr>trace = [CallCreateOrUpdate (fst (projr (CreateAdvertisement [example_node]
                      ''cluster1'' ''1.2.3.4'' ''10.0.0.1'' (frozen_clock 0)))),
                  LogError ''rejected'' ''Unable to create advertisement on remote cluster peerA'',
                  Sleep (10 * Minute)],
         once_done = False,
         clock = snd (projr (CreateAdvertisement [example_node]
                      ''cluster1'' ''1.2.3.4'' ''10.0.0.1'' (frozen_clock 0)))\<rparr>)
   \<and> map (\<lambda>r. watcher_starts (snd r))
         (spawn_tasks [\<lparr>cm_Name = ''foreign-kubeconfig-peerA''\<rparr>,
                       \<lparr>cm_Name = ''unrelated''\<rparr>,
                       \<lparr>cm_Name = ''foreign-kubeconfig-peerB''\<rparr>,
                       \<lparr>cm_Name = ''foreign-kubeconfig-peerC''\<rparr>]
            example_peers ''cluster1'' ''1.2.3.4'' ''10.0.0.1'') = [1, 1, 0]"
proof -
  have ok: "Nodes_List cycle_ok = Inr [example_node]" "CreateOrUpdate cycle_ok = None"
    by (simp_all add: cycle_ok_def)
  have ko: "Nodes_List cycle_publish_fails = Inr [example_node]"
    "CreateOrUpdate cycle_publish_fails = Some ''rejected''"
    by (simp_all add: cycle_publish_fails_def)
  have s: "successful cycle_ok" "\<not> successful cycle_publish_fails"
    "reaches_publish cycle_ok" "reaches_publish cycle_publish_fails"
    by (simp_all add: successful_def reaches_publish_def ok ko)
  have f: "\<not> once_done (new_task (frozen_clock 0))" "watcher_starts (new_task (frozen_clock 0)) = 0"
    by (simp_all add: new_task_def watcher_starts_def)
  from s have a: "list_all successful [cycle_ok, cycle_ok, cycle_ok]"
    by simp
  note T = watcher_started_once [where cid = "''cluster1''" and g = "''1.2.3.4''"
      and gp = "''10.0.0.1''" and fid = "''peerA''" and t = "new_task (frozen_clock 0)"
      and n = example_node and ns = "[]" and e = "''rejected''" and peers = example_peers]
  from T [where c = cycle_ok and cycles = "[cycle_ok, cycle_ok, cycle_ok]"] s f a
  have w1: "watcher_starts (snd (publish_loop [cycle_ok, cycle_ok, cycle_ok]
         ''cluster1'' ''1.2.3.4'' ''10.0.0.1'' ''peerA'' (new_task (frozen_clock 0)))) = 1"
    by blast
  from T [where cycles = "[cycle_publish_fails, cycle_publish_fails]"]
  have "watcher_starts (snd (publish_loop [cycle_publish_fails, cycle_publish_fails]
         ''cluster1'' ''1.2.3.4'' ''10.0.0.1'' ''peerA'' (new_task (frozen_clock 0)))) =
       watcher_starts (new_task (frozen_clock 0))
         + (if \<not> once_done (new_task (frozen_clock 0))
               \<and> list_ex successful
                   (takeWhile reaches_publish [cycle_publish_fails, cycle_publish_fails])
            then 1 else 0)"
    by blast
  then have w2: "watcher_starts (snd (publish_loop [cycle_publish_fails, cycle_publish_fails]
         ''cluster1'' ''1.2.3.4'' ''10.0.0.1'' ''peerA'' (new_task (frozen_clock 0)))) = 0"
    by (simp add: s f del: publish_loop.simps)
  from T [where cycles = "[cycle_publish_fails, cycle_ok, cycle_ok]"]
  have "watcher_starts (snd (publish_loop [cycle_publish_fails, cycle_ok, cycle_ok]
         ''cluster1'' ''1.2.3.4'' ''10.0.0.1'' ''peerA'' (new_task (frozen_clock 0)))) =
       watcher_starts (new_task (frozen_clock 0))
         + (if \<not> once_done (new_task (frozen_clock 0))
               \<and> list_ex successful
                   (takeWhile reaches_publish [cycle_publish_fails, cycle_ok, cycle_ok])
            then 1 else 0)"
    by blast
  then have w3: "watcher_starts (snd (publish_loop [cycle_publish_fails, cycle_ok, cycle_ok]
         ''cluster1'' ''1.2.3.4'' ''10.0.0.1'' ''peerA'' (new_task (frozen_clock 0)))) = 1"
    by (simp add: s f del: publish_loop.simps)
  from T [where c = cycle_publish_fails and cs = "[]"] ko
  have "publish_loop [cycle_publish_fails] ''cluster1'' ''1.2.3.4'' ''10.0.0.1'' ''peerA''
         (new_task (frozen_clock 0)) =
        publish_loop [] ''cluster1'' ''1.2.3.4'' ''10.0.0.1'' ''peerA''
          \<lparr>trace = trace (new_task (frozen_clock 0))
                @ [CallCreateOrUpdate
                     (fst (projr (CreateAdvertisement [example_node] ''cluster1'' ''1.2.3.4''
                        ''10.0.0.1'' (clock (new_task (frozen_clock 0)))))),
                   LogError ''rejected''
                     (''Unable to create advertisement on remote cluster '' @ ''peerA''),
                   Sleep (10 * Minute)],
              once_done = once_done (new_task (frozen_clock 0)),
              clock = snd (projr (CreateAdvertisement [example_node] ''cluster1'' ''1.2.3.4''
                        ''10.0.0.1'' (clock (new_task (frozen_clock 0)))))\<rparr>"
    by blast
  then have w4: "publish_loop [cycle_publish_fails] ''cluster1'' ''1.2.3.4'' ''10.0.0.1'' ''peerA''
         (new_task (frozen_clock 0)) =
       (Running,
        \<lparr>trace = [CallCreateOrUpdate (fst (projr (CreateAdvertisement [example_node]
                      ''cluster1'' ''1.2.3.4'' ''10.0.0.1'' (frozen_clock 0)))),
                  LogError ''rejected'' ''Unable to create advertisement on remote cluster peerA'',
                  Sleep (10 * Minute)],
         once_done = False,
         clock = snd (projr (CreateAdvertisement [example_node]
                      ''cluster1'' ''1.2.3.4'' ''10.0.0.1'' (frozen_clock 0)))\<rparr>)"
    by (simp add: new_task_def)
  from T [where cms = "[\<lparr>cm_Name = ''foreign-kubeconfig-peerA''\<rparr>,
                       \<lparr>cm_Name = ''unrelated''\<rparr>,
                       \<lparr>cm_Name = ''foreign-kubeconfig-peerB''\<rparr>,
                       \<lparr>cm_Name = ''foreign-kubeconfig-peerC''\<rparr>]"]
  have "map (\<lambda>r. watcher_starts (snd r))
         (spawn_tasks [\<lparr>cm_Name = ''foreign-kubeconfig-peerA''\<rparr>,
                       \<lparr>cm_Name = ''unrelated''\<rparr>,
                       \<lparr>cm_Name = ''foreign-kubeconfig-peerB''\<rparr>,
                       \<lparr>cm_Name = ''foreign-kubeconfig-peerC''\<rparr>]
            example_peers ''cluster1'' ''1.2.3.4'' ''10.0.0.1'') =
       map (\<lambda>cm. if name_sliceable (Some cm)
                      \<and> connects (peer_connector (example_peers (cm_Name cm)))
                      \<and> list_ex successful
                          (takeWhile reaches_publish (peer_cycles (example_peers (cm_Name cm))))
                  then 1 else 0)
         (filter (\<lambda>cm. HasPrefix (cm_Name cm) ''foreign-kubeconfig'')
            [\<lparr>cm_Name = ''foreign-kubeconfig-peerA''\<rparr>,
             \<lparr>cm_Name = ''unrelated''\<rparr>,
             \<lparr>cm_Name = ''foreign-kubeconfig-peerB''\<rparr>,
             \<lparr>cm_Name = ''foreign-kubeconfig-peerC''\<rparr>])"
    by blast
  also have "\<dots> = [1, 1, 0]"
    by (simp add: HasPrefix_def name_sliceable_def example_peers_def connects_def
        connector_ok_def connector_third_def connector_never_def s)
  finally have w5: "map (\<lambda>r. watcher_starts (snd r))
         (spawn_tasks [\<lparr>cm_Name = ''foreign-kubeconfig-peerA''\<rparr>,
                       \<lparr>cm_Name = ''unrelated''\<rparr>,
                       \<lparr>cm_Name = ''foreign-kubeconfig-peerB''\<rparr>,
                       \<lparr>cm_Name = ''foreign-kubeconfig-peerC''\<rparr>]
            example_peers ''cluster1'' ''1.2.3.4'' ''10.0.0.1'') = [1, 1, 0]" .
  from ok ko s(1) f a w1 w2 w3 w4 w5 show ?thesis
    by (intro conjI) simp_all
qed

section \<open>A failed node listing, a name that is the bare prefix\<close>

text \<open>
  Claim C1 says that a cycle whose node listing fails is abandoned and that the task
  sleeps and tries again. The loop logs the failure and returns: the outcome is
  \<open>Returned\<close>, no sleep follows the log line, and the cycles after it are never run. For
  a task whose first listing times out, the trace ends with the log line and the
  deferred \<^verbatim>\<open>wg.Done()\<close>, although the next cycle would have published.
\<close>

theorem publish_loop_list_failure_returns:
  "publish_loop (\<lparr>Nodes_List = Inl e, CreateOrUpdate = r\<rparr> # cs) cid g gp fid t
     = (Returned, emit (LogError e ''Unable to list nodes'') t)
   \<and> GenerateAdvertisement connector_ok [cycle_list_fails, cycle_ok] (Some example_cm)
       ''cluster1'' ''1.2.3.4'' ''10.0.0.1'' (new_task (frozen_clock 0))
     = (Returned,
        \<lparr>trace = [CallNewCRDClient,
                  LogInfo ''created client to remote cluster peerA'',
                  LogError ''timeout'' ''Unable to list nodes'',
                  WgDone],
         once_done = False, clock = frozen_clock 0\<rparr>)"
  by (simp add: GenerateAdvertisement_def slice_from_def example_cm_def
      connect_loop_ok [where N = connector_ok and c = "''client''"] connector_ok_def
      cycle_list_fails_def deferred_Done_def emit_def new_task_def)

text \<open>
  Claim C3 says that a record whose name has the prefix but no well-formed peer
  identifier is skipped, and that a record named by the bare prefix does not crash the
  broadcaster. The discovery accepts every name that starts with \<^verbatim>\<open>foreign-kubeconfig\<close>
  (18 bytes), and the task slices the name from byte 19: on the bare prefix the task
  panics with a slice bound out of range, which ends the process. A name with any other
  byte in the place of the dash is accepted too, and its task runs for the peer named by
  what follows.
\<close>

theorem bare_prefix_panics:
  "HasPrefix ''foreign-kubeconfig'' ''foreign-kubeconfig''
   \<and> spawn_tasks (\<lparr>cm_Name = ''foreign-kubeconfig''\<rparr> # rest) peers cid g gp
       = (Panicked (SliceBoundsOutOfRange 19 18),
          emit WgDone (new_task (peer_clock (peers ''foreign-kubeconfig''))))
         # spawn_tasks rest peers cid g gp
   \<and> process_crashed (StartBroadcaster
         \<lparr>NewK8sClient = None, NewCRDClient_local = None,
          ConfigMaps_List = Inr (\<lparr>cm_Name = ''foreign-kubeconfig''\<rparr> # rest),
          peers_env = peers\<rparr> cid g gp)
   \<and> HasPrefix ''foreign-kubeconfigXpeerB'' ''foreign-kubeconfig''
   \<and> slice_from (length ''foreign-kubeconfig-'') ''foreign-kubeconfigXpeerB'' = Inr ''peerB''"
  by (simp add: HasPrefix_def GenerateAdvertisement_def slice_from_def deferred_Done_def
      StartBroadcaster_def process_crashed_def)

end
